theory Spec2Isabelle
  imports Complex_Main
begin

section \<open>JavaScript strings\<close>

text \<open>
  A JavaScript string is a sequence of UTF-16 code units. The model uses \<open>string\<close>
  (\<open>char list\<close>), one \<open>char\<close> per code unit, and so covers the strings whose code units
  are all below 256. \<open>String.prototype.trim\<close> removes leading and trailing white space and
  line terminators; below 256 these are TAB, LF, VT, FF, CR, SPACE and NO-BREAK SPACE.
\<close>

definition is_js_whitespace :: "char \<Rightarrow> bool" where
  "is_js_whitespace c \<longleftrightarrow>
     c = CHR 0x09 \<or> c = CHR 0x0A \<or> c = CHR 0x0B \<or> c = CHR 0x0C \<or> c = CHR 0x0D
       \<or> c = CHR 0x20 \<or> c = CHR 0xA0"

definition trim :: "string \<Rightarrow> string" where
  "trim s = rev (dropWhile is_js_whitespace (rev (dropWhile is_js_whitespace s)))"

text \<open>\<open>s.includes(c)\<close> for a needle \<open>c\<close> of one code unit.\<close>

definition str_includes :: "string \<Rightarrow> char \<Rightarrow> bool" where
  "str_includes s c \<longleftrightarrow> c \<in> set s"

text \<open>\<open>xs.join(sep)\<close> on an array of strings.\<close>

fun join :: "string \<Rightarrow> string list \<Rightarrow> string" where
  "join sep [] = []"
| "join sep [x] = x"
| "join sep (x # y # ys) = x @ sep @ join sep (y # ys)"

text \<open>\<open>(s.match(/c/g) || []).length\<close>: the number of occurrences of the code unit \<open>c\<close>.\<close>

definition match_count :: "char \<Rightarrow> string \<Rightarrow> nat" where
  "match_count c s = length (filter (\<lambda>d. d = c) s)"

text \<open>
  \<open>String.prototype.toUpperCase\<close> on the ASCII letters. (Of the other code units below
  256 none is mapped to an ASCII letter, except that U+00DF becomes \<open>SS\<close>; no level name
  compared against below contains \<open>SS\<close>.)
\<close>

definition upper_char :: "char \<Rightarrow> char" where
  "upper_char c =
     (case map_of (zip ''abcdefghijklmnopqrstuvwxyz'' ''ABCDEFGHIJKLMNOPQRSTUVWXYZ'') c of
        Some u \<Rightarrow> u
      | None \<Rightarrow> c)"

definition toUpperCase :: "string \<Rightarrow> string" where
  "toUpperCase s = map upper_char s"

section \<open>Query model (QueryBuilder.tsx, utils)\<close>

record Filter =
  filter_id :: string
  field :: string
  operator :: string
  filter_value :: string

record operator_option =
  op_value :: string
  op_label :: string

definition OPERATORS :: "operator_option list" where
  "OPERATORS =
     [\<lparr>op_value = ''='', op_label = ''equals''\<rparr>,
      \<lparr>op_value = ''!='', op_label = ''not equals''\<rparr>,
      \<lparr>op_value = ''~'', op_label = ''contains''\<rparr>,
      \<lparr>op_value = ''!~'', op_label = ''not contains''\<rparr>,
      \<lparr>op_value = ''=~'', op_label = ''regex match''\<rparr>,
      \<lparr>op_value = ''!~'', op_label = ''regex not match''\<rparr>]"

text \<open>The double quote, U+0022.\<close>

definition dquote :: char where
  "dquote = CHR 0x22"

text \<open>The body of the \<open>map\<close> callback of \<open>buildQueryFromFilters\<close>.\<close>

definition filterString :: "Filter \<Rightarrow> string" where
  "filterString f =
     (let needsQuotes = (str_includes (filter_value f) CHR '' '' \<or> str_includes (filter_value f) CHR '':'');
          v = (if needsQuotes then [dquote] @ filter_value f @ [dquote] else filter_value f)
      in field f @ operator f @ v)"

definition buildQueryFromFilters :: "Filter list \<Rightarrow> string" where
  "buildQueryFromFilters filters =
     (let validFilters = filter (\<lambda>f. field f \<noteq> [] \<and> filter_value f \<noteq> []) filters
      in if length validFilters = 0 then ''*''
         else join '' AND '' (map filterString validFilters))"

record validation =
  isValid :: bool
  error :: "string option"

definition validateLogsQLQuery :: "string \<Rightarrow> validation" where
  "validateLogsQLQuery query =
     (if trim query = [] then \<lparr>isValid = False, error = Some ''Query cannot be empty''\<rparr>
      else
        let openParens = match_count CHR ''('' query;
            closeParens = match_count CHR '')'' query
        in if openParens \<noteq> closeParens
           then \<lparr>isValid = False, error = Some ''Mismatched parentheses''\<rparr>
           else
             let openQuotes = match_count dquote query
             in if openQuotes mod 2 \<noteq> 0
                then \<lparr>isValid = False, error = Some ''Mismatched quotes''\<rparr>
                else \<lparr>isValid = True, error = None\<rparr>)"

section \<open>Drift detection (DriftDetection page)\<close>

text \<open>
  JavaScript numbers are IEEE doubles; the model computes on exact reals, so it describes
  the code up to floating-point rounding. \<open>Math.round\<close> rounds to the nearest integer,
  halves upwards.
\<close>

definition Math_round :: "real \<Rightarrow> real" where
  "Math_round x = of_int \<lfloor>x + 1 / 2\<rfloor>"

datatype alert_level = normal | warning | critical

record DriftRecord =
  drift_service :: string
  drift_severity :: string
  currentPeriod :: real
  baselinePeriod :: real
  delta :: real
  percentageChange :: real
  timestamp :: string
  alertLevel :: alert_level

text \<open>
  The callback of \<open>timestamps.map\<close> in \<open>generateDriftData\<close>. Its two calls of
  \<open>Math.random()\<close> return numbers in the interval from 0 (inclusive) to 1 (exclusive);
  they are the parameters \<open>r1\<close> and \<open>r2\<close>.
\<close>

definition driftItem ::
  "real \<Rightarrow> real \<Rightarrow> string \<Rightarrow> string \<Rightarrow> string \<Rightarrow> real \<Rightarrow> real \<Rightarrow> DriftRecord" where
  "driftItem warningThreshold criticalThreshold svc sev ts r1 r2 =
     (let baseline = r1 * 100 + 10;
          current = baseline * (3 / 10 + r2 * (14 / 10));
          dlt = current - baseline;
          pct = \<bar>(dlt / baseline) * 100\<bar>;
          lvl = (if pct > criticalThreshold then critical
                 else if pct > warningThreshold then warning
                 else normal)
      in \<lparr>drift_service = svc, drift_severity = sev,
          currentPeriod = Math_round (current * 100) / 100,
          baselinePeriod = Math_round (baseline * 100) / 100,
          delta = Math_round (dlt * 100) / 100,
          percentageChange = Math_round (pct * 100) / 100,
          timestamp = ts, alertLevel = lvl\<rparr>)"

definition drift_services :: "string list" where
  "drift_services = [''user-service'', ''auth-service'', ''payment-service'',
     ''notification-service'', ''analytics-service'', ''database-service'', ''cache-service'']"

definition drift_severities :: "string list" where
  "drift_severities = [''ERROR'', ''WARN'', ''INFO'', ''DEBUG'']"

definition drift_timestamps :: "string list" where
  "drift_timestamps = [''2025-08-12T00:00:00Z'', ''2025-08-12T06:00:00Z'',
     ''2025-08-12T12:00:00Z'', ''2025-08-12T18:00:00Z'']"

text \<open>
  \<open>generateDriftData\<close>: one record per service, severity and timestamp, in that nesting
  order. \<open>rnd k\<close> is the result of the \<open>k\<close>-th call of \<open>Math.random()\<close>; each record
  consumes two consecutive calls.
\<close>

definition generateDriftData :: "real \<Rightarrow> real \<Rightarrow> (nat \<Rightarrow> real) \<Rightarrow> DriftRecord list" where
  "generateDriftData warningThreshold criticalThreshold rnd =
     map (\<lambda>(k, (svc, sev, ts)).
            driftItem warningThreshold criticalThreshold svc sev ts (rnd (2 * k)) (rnd (2 * k + 1)))
       (enumerate 0
          (concat (map (\<lambda>svc. concat (map (\<lambda>sev. map (\<lambda>ts. (svc, sev, ts)) drift_timestamps)
             drift_severities)) drift_services)))"

section \<open>Log records and JavaScript containers\<close>

text \<open>
  A log record (\<open>LogEntry\<close>). \<open>log_time\<close> is the instant \<open>new Date(log._time).getTime()\<close>
  in milliseconds since the epoch (records whose \<open>_time\<close> does not parse are outside the
  model), \<open>log_msg\<close> is \<open>_msg\<close>; \<open>level\<close>, \<open>service\<close> and \<open>host\<close> are optional.
\<close>

record LogEntry =
  log_time :: int
  log_msg :: string
  level :: "string option"
  service :: "string option"
  host :: "string option"

datatype group_by = by_level | by_service | by_host

text \<open>\<open>log[groupBy]\<close>.\<close>

fun group_field :: "group_by \<Rightarrow> LogEntry \<Rightarrow> string option" where
  "group_field by_level entry = level entry"
| "group_field by_service entry = service entry"
| "group_field by_host entry = host entry"

text \<open>\<open>x || d\<close> for an optional string \<open>x\<close>: \<open>undefined\<close> and the empty string are falsy.\<close>

definition or_default :: "string option \<Rightarrow> string \<Rightarrow> string" where
  "or_default x d = (case x of None \<Rightarrow> d | Some s \<Rightarrow> if s = [] then d else s)"

text \<open>
  A JavaScript \<open>Map\<close> iterates in insertion order, and \<open>set\<close> on a key already present
  keeps the key's position: an association list with distinct keys.
\<close>

fun map_set :: "('k \<times> 'v) list \<Rightarrow> 'k \<Rightarrow> 'v \<Rightarrow> ('k \<times> 'v) list" where
  "map_set [] k v = [(k, v)]"
| "map_set ((k', v') # m) k v = (if k' = k then (k, v) # m else (k', v') # map_set m k v)"

text \<open>\<open>m.set(k, (m.get(k) || 0) + 1)\<close>.\<close>

definition map_increment :: "('k \<times> nat) list \<Rightarrow> 'k \<Rightarrow> ('k \<times> nat) list" where
  "map_increment m k = map_set m k ((case map_of m k of None \<Rightarrow> 0 | Some n \<Rightarrow> n) + 1)"

text \<open>
  \<open>Array.prototype.sort\<close> is stable. \<open>js_sort precedes\<close> is the stable sort for a comparison
  in which \<open>precedes a b\<close> says that \<open>a\<close> must come before \<open>b\<close>. (For a comparator that is not
  a consistent ordering the language leaves the result to the engine; the model then gives
  the result of this insertion sort.)
\<close>

fun insert_sorted :: "('a \<Rightarrow> 'a \<Rightarrow> bool) \<Rightarrow> 'a \<Rightarrow> 'a list \<Rightarrow> 'a list" where
  "insert_sorted precedes x [] = [x]"
| "insert_sorted precedes x (y # ys) =
     (if precedes y x then y # insert_sorted precedes x ys else x # y # ys)"

definition js_sort :: "('a \<Rightarrow> 'a \<Rightarrow> bool) \<Rightarrow> 'a list \<Rightarrow> 'a list" where
  "js_sort precedes xs = foldr (insert_sorted precedes) xs []"

text \<open>\<open>xs.slice(start, stop)\<close>, with negative indices counted from the end.\<close>

definition js_slice :: "int \<Rightarrow> int \<Rightarrow> 'a list \<Rightarrow> 'a list" where
  "js_slice start stop xs =
     (let len = int (length xs);
          lo = (if start < 0 then max (len + start) 0 else min start len);
          hi = (if stop < 0 then max (len + stop) 0 else min stop len)
      in take (nat (hi - lo)) (drop (nat lo) xs))"

text \<open>\<open>xs.slice(start)\<close>.\<close>

definition js_slice_from :: "int \<Rightarrow> 'a list \<Rightarrow> 'a list" where
  "js_slice_from start xs = js_slice start (int (length xs)) xs"

text \<open>
  The default order of \<open>Array.prototype.sort()\<close> (no comparator): the elements are
  converted to strings and compared by code units.
\<close>

fun code_units_less :: "string \<Rightarrow> string \<Rightarrow> bool" where
  "code_units_less [] [] = False"
| "code_units_less [] (y # ys) = True"
| "code_units_less (x # xs) [] = False"
| "code_units_less (x # xs) (y # ys) =
     ((of_char x :: nat) < of_char y \<or> (x = y \<and> code_units_less xs ys))"

text \<open>
  \<open>Number.prototype.toString\<close> on an integer (of absolute value below \<open>10^21\<close>, where
  JavaScript switches to exponent notation).
\<close>

function digits_of :: "int \<Rightarrow> string" where
  "digits_of n =
     (if n < 10 then [''0123456789'' ! nat n]
      else digits_of (n div 10) @ [''0123456789'' ! nat (n mod 10)])"
  by pat_completeness auto
termination
  by (relation "measure nat") auto

declare digits_of.simps [simp del]

definition Number_toString :: "int \<Rightarrow> string" where
  "Number_toString n = (if n < 0 then CHR ''-'' # digits_of (- n) else digits_of n)"

definition sort_numbers_default :: "int list \<Rightarrow> int list" where
  "sort_numbers_default xs =
     js_sort (\<lambda>a b. code_units_less (Number_toString a) (Number_toString b)) xs"

text \<open>\<open>Math.min(...xs)\<close> and \<open>Math.max(...xs)\<close> on a non-empty array of integers.\<close>

definition Math_min :: "int list \<Rightarrow> int" where
  "Math_min xs = fold min (tl xs) (hd xs)"

definition Math_max :: "int list \<Rightarrow> int" where
  "Math_max xs = fold max (tl xs) (hd xs)"

subsection \<open>Plain objects used as dictionaries\<close>

text \<open>
  Several charts count into a plain object \<open>{}\<close>. Reading \<open>acc[k]\<close> consults the
  object's own properties and then \<open>Object.prototype\<close>, whose members (functions, and the
  accessor \<open>__proto__\<close>) are truthy and are not numbers. A property holds either a number
  or, once \<open>+ 1\<close> has been applied to something that is not a number, a non-empty string
  (the text of the function or object followed by \<open>1\<close>); the text itself depends on the
  engine and is not modelled.
\<close>

datatype count_value = Count nat | Text

definition Object_prototype_names :: "string list" where
  "Object_prototype_names =
     [''constructor'', ''hasOwnProperty'', ''isPrototypeOf'', ''propertyIsEnumerable'',
      ''toLocaleString'', ''toString'', ''valueOf'', ''__proto__'',
      ''__defineGetter__'', ''__defineSetter__'', ''__lookupGetter__'', ''__lookupSetter__'']"

text \<open>\<open>acc[k]\<close>; \<open>None\<close> is \<open>undefined\<close>.\<close>

definition object_get :: "(string \<times> count_value) list \<Rightarrow> string \<Rightarrow> count_value option" where
  "object_get acc k =
     (case map_of acc k of
        Some v \<Rightarrow> Some v
      | None \<Rightarrow> if List.member Object_prototype_names k then Some Text else None)"

text \<open>
  \<open>acc[k] = v\<close> for a primitive \<open>v\<close>: the setter of \<open>__proto__\<close> ignores a value that is
  not an object, every other name becomes (or stays) an own property.
\<close>

definition object_set ::
  "(string \<times> count_value) list \<Rightarrow> string \<Rightarrow> count_value \<Rightarrow> (string \<times> count_value) list" where
  "object_set acc k v = (if k = ''__proto__'' then acc else map_set acc k v)"

text \<open>\<open>acc[k] = (acc[k] || 0) + 1\<close>.\<close>

definition object_increment :: "(string \<times> count_value) list \<Rightarrow> string \<Rightarrow> (string \<times> count_value) list" where
  "object_increment acc k =
     object_set acc k
       (case object_get acc k of
          None \<Rightarrow> Count 1
        | Some (Count n) \<Rightarrow> Count (n + 1)
        | Some Text \<Rightarrow> Text)"

text \<open>
  \<open>Object.entries\<close> and \<open>Object.keys\<close> list the own properties whose names are array
  indices first, in ascending numeric order, then the other names in creation order.
\<close>

definition is_digit :: "char \<Rightarrow> bool" where
  "is_digit c \<longleftrightarrow> 48 \<le> (of_char c :: nat) \<and> (of_char c :: nat) \<le> 57"

definition digits_value :: "string \<Rightarrow> int" where
  "digits_value s = foldl (\<lambda>n c. 10 * n + (of_char c - 48)) 0 s"

definition is_array_index :: "string \<Rightarrow> bool" where
  "is_array_index s \<longleftrightarrow>
     s \<noteq> [] \<and> list_all is_digit s \<and> (s = ''0'' \<or> hd s \<noteq> CHR ''0'') \<and> digits_value s \<le> 4294967294"

definition Object_entries :: "(string \<times> 'v) list \<Rightarrow> (string \<times> 'v) list" where
  "Object_entries obj =
     js_sort (\<lambda>a b. digits_value (fst a) < digits_value (fst b))
       (filter (\<lambda>p. is_array_index (fst p)) obj)
     @ filter (\<lambda>p. \<not> is_array_index (fst p)) obj"

section \<open>Aggregation engine: frequency counts and rankings\<close>

text \<open>\<open>getLogLevelColor\<close> (utils).\<close>

definition getLogLevelColor :: "string option \<Rightarrow> string" where
  "getLogLevelColor lvl =
     (case lvl of
        None \<Rightarrow> ''#3b82f6''
      | Some l \<Rightarrow>
          if l = [] then ''#3b82f6''
          else
            let normalizedLevel = toUpperCase l
            in if normalizedLevel = ''DEBUG'' then ''#6b7280''
               else if normalizedLevel = ''INFO'' then ''#3b82f6''
               else if normalizedLevel = ''WARN'' \<or> normalizedLevel = ''WARNING'' then ''#f59e0b''
               else if normalizedLevel = ''ERROR'' then ''#ef4444''
               else if normalizedLevel = ''FATAL'' \<or> normalizedLevel = ''CRITICAL'' then ''#dc2626''
               else ''#3b82f6'')"

text \<open>
  The counting loop shared by the pie, donut and treemap charts:
  \<open>logs.forEach(log => { const key = log[groupBy] || 'unknown';
  counts.set(key, (counts.get(key) || 0) + 1) })\<close> on a \<open>Map\<close>.
\<close>

definition countOccurrences :: "group_by \<Rightarrow> LogEntry list \<Rightarrow> (string \<times> nat) list" where
  "countOccurrences groupBy logs =
     foldl (\<lambda>counts entry. map_increment counts (or_default (group_field groupBy entry) ''unknown''))
       [] logs"

text \<open>\<open>.sort((a, b) => b[1] - a[1])\<close>: descending by count, stable.\<close>

definition sort_entries_desc :: "('k \<times> nat) list \<Rightarrow> ('k \<times> nat) list" where
  "sort_entries_desc entries = js_sort (\<lambda>a b. snd b < snd a) entries"

record chart_data =
  data :: "nat list"
  labels :: "string list"
  colors :: "string list"

definition topEntries :: "nat \<Rightarrow> group_by \<Rightarrow> LogEntry list \<Rightarrow> chart_data" where
  "topEntries n groupBy logs =
     (let sortedEntries = take n (sort_entries_desc (countOccurrences groupBy logs));
          lbls = map fst sortedEntries
      in \<lparr>data = map snd sortedEntries, labels = lbls,
          colors = map (\<lambda>l. getLogLevelColor (Some l)) lbls\<rparr>)"

text \<open>\<open>chartData\<close> of \<open>PieChart\<close> (top 8) and of \<open>DonutChart\<close> (top 6).\<close>

definition PieChart :: "group_by \<Rightarrow> LogEntry list \<Rightarrow> chart_data" where
  "PieChart groupBy logs =
     (if length logs = 0 then \<lparr>data = [], labels = [], colors = []\<rparr>
      else topEntries 8 groupBy logs)"

definition DonutChart :: "group_by \<Rightarrow> LogEntry list \<Rightarrow> chart_data" where
  "DonutChart groupBy logs =
     (if length logs = 0 then \<lparr>data = [], labels = [], colors = []\<rparr>
      else topEntries 6 groupBy logs)"

text \<open>
  \<open>serviceCounts\<close> of \<open>ServiceChart\<close>, \<open>hostCounts\<close> of \<open>HostChart\<close> and \<open>levelCounts\<close>
  of \<open>LogLevelChart\<close>: a \<open>reduce\<close> into a plain object.
\<close>

definition objectCounts :: "(LogEntry \<Rightarrow> string) \<Rightarrow> LogEntry list \<Rightarrow> (string \<times> count_value) list" where
  "objectCounts key logs = foldl (\<lambda>acc entry. object_increment acc (key entry)) [] logs"

definition serviceCounts :: "LogEntry list \<Rightarrow> (string \<times> count_value) list" where
  "serviceCounts logs = objectCounts (\<lambda>entry. or_default (service entry) ''Unknown'') logs"

text \<open>
  \<open>b.count - a.count < 0\<close>; with a count that is not a number the difference is \<open>NaN\<close>
  and the comparison is false.
\<close>

fun count_before :: "count_value \<Rightarrow> count_value \<Rightarrow> bool" where
  "count_before (Count a) (Count b) = (b < a)"
| "count_before _ _ = False"

record service_row =
  row_service :: string
  row_count :: count_value

definition ServiceChart :: "LogEntry list \<Rightarrow> service_row list" where
  "ServiceChart logs =
     (if length logs = 0 then []
      else take 10
        (js_sort (\<lambda>a b. count_before (row_count a) (row_count b))
          (map (\<lambda>(s, c). \<lparr>row_service = s, row_count = c\<rparr>) (Object_entries (serviceCounts logs)))))"

record host_row =
  row_host :: string
  host_count :: count_value
  recentActivity :: count_value
  status :: string

text \<open>\<open>HostChart\<close>; \<open>now\<close> is \<open>Date.now()\<close>.\<close>

definition HostChart :: "int \<Rightarrow> LogEntry list \<Rightarrow> host_row list" where
  "HostChart now logs =
     (if length logs = 0 then []
      else
        let hostCounts = objectCounts (\<lambda>entry. or_default (host entry) ''Unknown'') logs;
            fiveMinutesAgo = now - 5 * 60 * 1000;
            recent = objectCounts (\<lambda>entry. or_default (host entry) ''Unknown'')
                       (filter (\<lambda>entry. log_time entry > fiveMinutesAgo) logs)
        in take 8
          (js_sort (\<lambda>a b. count_before (host_count a) (host_count b))
            (map (\<lambda>(h, c).
                  \<lparr>row_host = h, host_count = c,
                   recentActivity = (case object_get recent h of None \<Rightarrow> Count 0 | Some v \<Rightarrow> v),
                   status = (case object_get recent h of
                               Some (Count n) \<Rightarrow> if n > 0 then ''active'' else ''inactive''
                             | _ \<Rightarrow> ''inactive'')\<rparr>)
               (Object_entries hostCounts))))"

text \<open>
  \<open>LogLevelChart\<close>: the two rows of \<open>data\<close> (bar positions and counts); the plotting
  options are not modelled.
\<close>

definition LogLevelChart :: "LogEntry list \<Rightarrow> nat list \<times> count_value option list" where
  "LogLevelChart logs =
     (if length logs = 0 then ([], [])
      else
        let levelCounts = objectCounts (\<lambda>entry. or_default (level entry) ''UNKNOWN'') logs;
            levels = js_sort code_units_less (map fst (Object_entries levelCounts));
            counts = map (\<lambda>l. object_get levelCounts l) levels
        in ([0 ..< length levels], counts))"

section \<open>Aggregation engine: rates, gauges and radar\<close>

text \<open>\<open>parseFloat(x.toFixed(1))\<close> for a non-negative \<open>x\<close>: rounding to one decimal, halves upwards.\<close>

definition toFixed1 :: "real \<Rightarrow> real" where
  "toFixed1 x = of_int \<lfloor>x * 10 + 1 / 2\<rfloor> / 10"

text \<open>
  The filter of \<open>ErrorChart\<close>:
  \<open>log.level && ['ERROR', 'FATAL', 'CRITICAL'].includes(log.level.toUpperCase())\<close>.
\<close>

definition isErrorLog :: "LogEntry \<Rightarrow> bool" where
  "isErrorLog entry =
     (case level entry of
        None \<Rightarrow> False
      | Some l \<Rightarrow> l \<noteq> [] \<and> List.member [''ERROR'', ''FATAL'', ''CRITICAL''] (toUpperCase l))"

record error_row =
  err_time :: string
  err_service :: string
  err_message :: string
  err_level :: "string option"

record error_data =
  errors :: "error_row list"
  trend :: string
  errorRate :: real
  totalErrors :: "nat option"
  hourlyData :: "nat list option"

definition oneHour :: int where
  "oneHour = 60 * 60 * 1000"

text \<open>
  The hourly buckets of \<open>ErrorChart\<close>: a \<open>Map\<close> initialised with the 24 hours up to
  \<open>now\<close> (oldest first), then incremented once per error record at the hour of the
  record; an hour that is not among the 24 is appended behind them.
\<close>

definition hourlyErrors :: "int \<Rightarrow> LogEntry list \<Rightarrow> (int \<times> nat) list" where
  "hourlyErrors now errorLogs =
     foldl (\<lambda>m entry. map_increment m (log_time entry div oneHour))
       (foldl (\<lambda>m i. map_set m ((now - i * oneHour) div oneHour) 0) [] (rev [0 .. 23]))
       errorLogs"

text \<open>
  \<open>errorData\<close> of \<open>ErrorChart\<close>. \<open>now\<close> is \<open>Date.now()\<close>; \<open>toLocaleTimeString\<close> formats
  an instant in the browser's locale. The fields \<open>totalErrors\<close> and \<open>hourlyData\<close> are
  absent from the result for an empty input.
\<close>

definition ErrorChart :: "(int \<Rightarrow> string) \<Rightarrow> int \<Rightarrow> LogEntry list \<Rightarrow> error_data" where
  "ErrorChart toLocaleTimeString now logs =
     (if length logs = 0
      then \<lparr>errors = [], trend = ''stable'', errorRate = 0, totalErrors = None, hourlyData = None\<rparr>
      else
        let errorLogs = filter isErrorLog logs;
            rate = toFixed1 (real (length errorLogs) / real (length logs) * 100);
            hourly = map snd (hourlyErrors now errorLogs);
            recent = sum_list (js_slice_from (- 3) hourly);
            previous = sum_list (js_slice (- 6) (- 3) hourly);
            tr = (if real recent > real previous * (12 / 10) then ''up''
                  else if real recent < real previous * (8 / 10) then ''down''
                  else ''stable'');
            recentErrors =
              map (\<lambda>entry. \<lparr>err_time = toLocaleTimeString (log_time entry),
                            err_service = or_default (service entry) ''Unknown'',
                            err_message = (if log_msg entry = [] then ''No message'' else log_msg entry),
                            err_level = level entry\<rparr>)
                (rev (js_slice_from (- 5) errorLogs))
        in \<lparr>errors = recentErrors, trend = tr, errorRate = rate,
            totalErrors = Some (length errorLogs), hourlyData = Some hourly\<rparr>)"

datatype gauge_metric = error_rate | warning_rate | activity_level

text \<open>
  The label of a gauge is text built with \<open>toFixed(1)\<close>; the model keeps the number that
  is formatted. In \<open>label_per_minute\<close>, \<open>None\<close> is JavaScript's \<open>Infinity\<close>.
\<close>

datatype gauge_text = label_zero_percent | label_percent real | label_per_minute "real option"

record gauge_data =
  gauge_value :: real
  gauge_label :: gauge_text
  gauge_color :: string

text \<open>
  \<open>gaugeData\<close> of \<open>GaugeChart\<close>. For the activity level, \<open>timeSpan\<close> is the time of
  the last record minus the time of the first one, in minutes; a span of zero makes
  \<open>logsPerMinute\<close> infinite, and \<open>Math.min\<close> then yields 100.
\<close>

definition GaugeChart :: "gauge_metric \<Rightarrow> LogEntry list \<Rightarrow> gauge_data" where
  "GaugeChart metric logs =
     (if length logs = 0
      then \<lparr>gauge_value = 0, gauge_label = label_zero_percent, gauge_color = ''#10b981''\<rparr>
      else
        case metric of
          error_rate \<Rightarrow>
            let errorCount = length (filter (\<lambda>entry. level entry = Some ''ERROR'') logs);
                v = real errorCount / real (length logs) * 100
            in \<lparr>gauge_value = min v 100, gauge_label = label_percent v,
                gauge_color = (if v > 20 then ''#ef4444'' else if v > 10 then ''#f59e0b''
                               else ''#10b981'')\<rparr>
        | warning_rate \<Rightarrow>
            let warningCount = length (filter (\<lambda>entry. level entry = Some ''WARN'') logs);
                v = real warningCount / real (length logs) * 100
            in \<lparr>gauge_value = min v 100, gauge_label = label_percent v,
                gauge_color = (if v > 30 then ''#f59e0b'' else if v > 15 then ''#eab308''
                               else ''#10b981'')\<rparr>
        | activity_level \<Rightarrow>
            let timeSpan = (if length logs > 1
                            then real_of_int (log_time (last logs) - log_time (hd logs)) / (1000 * 60)
                            else 1);
                logsPerMinute = (if timeSpan = 0 then None
                                 else Some (real (length logs) / timeSpan));
                v = (case logsPerMinute of
                       None \<Rightarrow> 100
                     | Some r \<Rightarrow> min (r / 10 * 100) 100)
            in \<lparr>gauge_value = min v 100, gauge_label = label_per_minute logsPerMinute,
                gauge_color = (if v > 80 then ''#ef4444'' else if v > 50 then ''#f59e0b''
                               else ''#10b981'')\<rparr>)"

record RadarMetric =
  metric_label :: string
  metric_value :: real
  metric_maxValue :: real

text \<open>
  \<open>radarData\<close> of \<open>RadarChart\<close>. The number of unique services is the size of a \<open>Set\<close>
  of the \<open>service\<close> fields, in which \<open>undefined\<close> is a member like any other.
\<close>

definition RadarChart :: "LogEntry list \<Rightarrow> RadarMetric list" where
  "RadarChart logs =
     (if length logs = 0 then []
      else
        let totalLogs = real (length logs);
            count = (\<lambda>l. real (length (filter (\<lambda>entry. level entry = Some l) logs)));
            errorRt = count ''ERROR'' / totalLogs * 100;
            warnRt = count ''WARN'' / totalLogs * 100;
            activityRate = min (totalLogs / 1000 * 100) 100;
            infoRate = count ''INFO'' / totalLogs * 100;
            debugRate = count ''DEBUG'' / totalLogs * 100;
            uniqueServices = real (length (remdups (map service logs)));
            serviceDistribution = min (uniqueServices / 10 * 100) 100
        in [\<lparr>metric_label = ''Activity'', metric_value = activityRate, metric_maxValue = 100\<rparr>,
            \<lparr>metric_label = ''Info Rate'', metric_value = infoRate, metric_maxValue = 100\<rparr>,
            \<lparr>metric_label = ''Debug Rate'', metric_value = debugRate, metric_maxValue = 100\<rparr>,
            \<lparr>metric_label = ''Service Dist'', metric_value = serviceDistribution, metric_maxValue = 100\<rparr>,
            \<lparr>metric_label = ''Warn Rate'', metric_value = 100 - warnRt, metric_maxValue = 100\<rparr>,
            \<lparr>metric_label = ''Error Rate'', metric_value = 100 - errorRt, metric_maxValue = 100\<rparr>])"

section \<open>Aggregation engine: time buckets\<close>

text \<open>
  The initialisation loop of \<open>TimelineChart\<close>:
  \<open>for (let time = minTime; time <= maxTime; time += bucketSize)
       buckets.set(Math.floor(time / bucketSize) * bucketSize, 0)\<close>
  with \<open>bucketSize = 60 * 1000\<close>.
\<close>

function timeline_init :: "int \<Rightarrow> int \<Rightarrow> (int \<times> nat) list \<Rightarrow> (int \<times> nat) list" where
  "timeline_init t maxTime buckets =
     (if t \<le> maxTime
      then timeline_init (t + 60 * 1000) maxTime (map_set buckets (t div (60 * 1000) * (60 * 1000)) 0)
      else buckets)"
  by pat_completeness auto
termination
  by (relation "measure (\<lambda>(t, maxTime, buckets). nat (maxTime - t + 1))") auto

declare timeline_init.simps [simp del]

text \<open>The \<open>Map\<close> of 1-minute buckets of \<open>TimelineChart\<close> after the fill loop.\<close>

definition timeline_buckets :: "LogEntry list \<Rightarrow> (int \<times> nat) list" where
  "timeline_buckets logs =
     (let times = map log_time logs;
          minTime = Math_min times;
          maxTime = Math_max times
      in foldl (\<lambda>buckets entry. map_increment buckets (log_time entry div (60 * 1000) * (60 * 1000)))
           (timeline_init minTime maxTime []) logs)"

text \<open>
  \<open>data\<close> of \<open>TimelineChart\<close>: the bucket keys in the order of \<open>sort()\<close>, converted to
  seconds, and the counts. The plotting options are not modelled.
\<close>

definition TimelineChart :: "LogEntry list \<Rightarrow> real list \<times> nat list" where
  "TimelineChart logs =
     (if length logs = 0 then ([], [])
      else
        let buckets = timeline_buckets logs;
            timestamps = sort_numbers_default (map fst buckets);
            counts = map (\<lambda>t. case map_of buckets t of None \<Rightarrow> 0 | Some n \<Rightarrow> n) timestamps
        in (map (\<lambda>t. real_of_int t / 1000) timestamps, counts))"

text \<open>
  The initialisation loop of \<open>StackedAreaChart\<close>:
  \<open>for (let time = startTime.getTime(); time <= endTime.getTime(); time += bucketSize)
       buckets.set(time, new Map())\<close>
  with \<open>bucketSize = 10 * 60 * 1000\<close>.
\<close>

function stacked_init ::
  "int \<Rightarrow> int \<Rightarrow> (int \<times> (string \<times> nat) list) list \<Rightarrow> (int \<times> (string \<times> nat) list) list" where
  "stacked_init t endTime buckets =
     (if t \<le> endTime
      then stacked_init (t + 10 * 60 * 1000) endTime (map_set buckets t [])
      else buckets)"
  by pat_completeness auto
termination
  by (relation "measure (\<lambda>(t, endTime, buckets). nat (endTime - t + 1))") auto

declare stacked_init.simps [simp del]

text \<open>
  One step of the fill loop: the bucket of the record is created if it is missing, and
  the count of the record's group in it is incremented.
\<close>

definition stacked_fill ::
  "group_by \<Rightarrow> (int \<times> (string \<times> nat) list) list \<Rightarrow> LogEntry \<Rightarrow> (int \<times> (string \<times> nat) list) list" where
  "stacked_fill groupBy buckets entry =
     (let bucketTime = log_time entry div (10 * 60 * 1000) * (10 * 60 * 1000);
          bucket = (case map_of buckets bucketTime of None \<Rightarrow> [] | Some b \<Rightarrow> b);
          groupKey = or_default (group_field groupBy entry) ''unknown''
      in map_set buckets bucketTime (map_increment bucket groupKey))"

definition stacked_buckets :: "group_by \<Rightarrow> LogEntry list \<Rightarrow> (int \<times> (string \<times> nat) list) list" where
  "stacked_buckets groupBy logs =
     (let times = map log_time logs;
          startTime = Math_min times;
          endTime = Math_max times
      in foldl (stacked_fill groupBy) (stacked_init startTime endTime []) logs)"

text \<open>\<open>set.add(k)\<close> on a \<open>Set\<close>, which iterates in insertion order.\<close>

definition set_add :: "'a list \<Rightarrow> 'a \<Rightarrow> 'a list" where
  "set_add s k = (if List.member s k then s else s @ [k])"

text \<open>The inner loop of the stacking: each group's value on top of the groups before it.\<close>

fun running_sums :: "nat \<Rightarrow> nat list \<Rightarrow> nat list" where
  "running_sums stackBase [] = []"
| "running_sums stackBase (v # vs) = (stackBase + v) # running_sums (stackBase + v) vs"

text \<open>
  \<open>data\<close> of \<open>StackedAreaChart\<close>: the row of timestamps (in seconds) and one row per
  group key. For an empty input the source returns the rows \<open>[[], []]\<close>.
\<close>

definition StackedAreaChart :: "group_by \<Rightarrow> LogEntry list \<Rightarrow> real list \<times> nat list list" where
  "StackedAreaChart groupBy logs =
     (if length logs = 0 then ([], [[]])
      else
        let buckets = stacked_buckets groupBy logs;
            allGroups = foldl (\<lambda>s (t, bucket). foldl (\<lambda>s (k, n). set_add s k) s bucket) [] buckets;
            groupKeys =
              (if length allGroups > 5
               then map fst (take 5 (sort_entries_desc (countOccurrences groupBy logs)))
               else allGroups);
            timestamps = sort_numbers_default (map fst buckets);
            columns =
              map (\<lambda>t. let bucket = (case map_of buckets t of None \<Rightarrow> [] | Some b \<Rightarrow> b)
                       in running_sums 0
                            (map (\<lambda>g. case map_of bucket g of None \<Rightarrow> 0 | Some n \<Rightarrow> n) groupKeys))
                timestamps;
            stackedData = map (\<lambda>i. map (\<lambda>column. column ! i) columns) [0 ..< length groupKeys]
        in (map (\<lambda>t. real_of_int t / 1000) timestamps, stackedData))"

text \<open>
  \<open>LogChart\<close> (5-minute buckets). Its initialisation loop
  \<open>for (let time = startTime.getTime(); time <= endTime.getTime(); time += bucketSize)
       buckets.set(time, new Map())\<close>
  with \<open>bucketSize = 5 * 60 * 1000\<close>:
\<close>

function logchart_init ::
  "int \<Rightarrow> int \<Rightarrow> (int \<times> (string \<times> nat) list) list \<Rightarrow> (int \<times> (string \<times> nat) list) list" where
  "logchart_init t endTime buckets =
     (if t \<le> endTime
      then logchart_init (t + 5 * 60 * 1000) endTime (map_set buckets t [])
      else buckets)"
  by pat_completeness auto
termination
  by (relation "measure (\<lambda>(t, endTime, buckets). nat (endTime - t + 1))") auto

declare logchart_init.simps [simp del]

definition logchart_fill ::
  "group_by \<Rightarrow> (int \<times> (string \<times> nat) list) list \<Rightarrow> LogEntry \<Rightarrow> (int \<times> (string \<times> nat) list) list" where
  "logchart_fill groupBy buckets entry =
     (let bucketTime = log_time entry div (5 * 60 * 1000) * (5 * 60 * 1000);
          bucket = (case map_of buckets bucketTime of None \<Rightarrow> [] | Some b \<Rightarrow> b);
          groupKey = or_default (group_field groupBy entry) ''unknown''
      in map_set buckets bucketTime (map_increment bucket groupKey))"

text \<open>
  \<open>chartData.data\<close> of \<open>LogChart\<close>. \<open>timeRange\<close> is the optional property (start and
  end instants), \<open>selectedService\<close> the component's state. Without a time range the bounds
  are the minimum and maximum over the filtered records; when no record passes the filter
  these are \<open>NaN\<close> (here \<open>None\<close>) and the initialisation loop does not run.
\<close>

definition LogChart ::
  "(int \<times> int) option \<Rightarrow> group_by \<Rightarrow> bool \<Rightarrow> string \<Rightarrow> LogEntry list \<Rightarrow> real list \<times> nat list list" where
  "LogChart timeRange groupBy showServiceDropdown selectedService logs =
     (if length logs = 0 then ([], [[]])
      else
        let filteredLogs =
              (if groupBy = by_service \<and> showServiceDropdown \<and> selectedService \<noteq> ''all''
               then filter (\<lambda>entry. or_default (service entry) ''unknown'' = selectedService) logs
               else logs);
            bounds =
              (case timeRange of
                 Some (s, e) \<Rightarrow> Some (s, e)
               | None \<Rightarrow> if filteredLogs = [] then None
                         else Some (Math_min (map log_time filteredLogs),
                                    Math_max (map log_time filteredLogs)));
            initial = (case bounds of None \<Rightarrow> [] | Some (s, e) \<Rightarrow> logchart_init s e []);
            buckets = foldl (logchart_fill groupBy) initial filteredLogs;
            allGroups = foldl (\<lambda>s (t, bucket). foldl (\<lambda>s (k, n). set_add s k) s bucket) [] buckets;
            groupKeys =
              (if groupBy = by_service \<and> showServiceDropdown
               then (if selectedService \<noteq> ''all'' then [selectedService]
                     else js_sort code_units_less allGroups)
               else if groupBy = by_service \<and> \<not> showServiceDropdown \<and> length allGroups > 5
               then map fst (take 5 (sort_entries_desc (countOccurrences by_service filteredLogs)))
               else js_sort code_units_less allGroups);
            timestamps = sort_numbers_default (map fst buckets);
            series =
              map (\<lambda>g. map (\<lambda>t. case map_of buckets t of
                                   None \<Rightarrow> 0
                                 | Some bucket \<Rightarrow> (case map_of bucket g of None \<Rightarrow> 0 | Some n \<Rightarrow> n))
                         timestamps)
                groupKeys
        in (map (\<lambda>t. real_of_int t / 1000) timestamps, series))"

text \<open>
  \<open>heatmapData\<close> of \<open>HeatmapChart\<close>. \<open>getHours\<close> and \<open>getDay\<close> are taken in local time:
  \<open>offset t\<close> is the local time zone's offset from UTC, in milliseconds, at the instant
  \<open>t\<close>. (1 January 1970 was a Thursday, day 4.)
\<close>

record heatmap_data =
  grid_data :: "nat list list"
  maxValue :: nat
  dayNames :: "string list option"

definition HeatmapChart :: "(int \<Rightarrow> int) \<Rightarrow> LogEntry list \<Rightarrow> heatmap_data" where
  "HeatmapChart offset logs =
     (if length logs = 0 then \<lparr>grid_data = [], maxValue = 0, dayNames = None\<rparr>
      else
        let grid =
              foldl (\<lambda>g entry.
                       let local = log_time entry + offset (log_time entry);
                           hour = nat (local div 3600000 mod 24);
                           day = nat ((local div 86400000 + 4) mod 7)
                       in g[day := (g ! day)[hour := g ! day ! hour + 1]])
                (replicate 7 (replicate 24 0)) logs
        in \<lparr>grid_data = grid, maxValue = fold max (concat grid) 0,
            dayNames = Some [''Sun'', ''Mon'', ''Tue'', ''Wed'', ''Thu'', ''Fri'', ''Sat'']\<rparr>)"

record TreemapItem =
  item_name :: string
  item_value :: nat
  item_color :: string
  item_x :: real
  item_y :: real
  item_width :: real
  item_height :: real

record layout_state =
  currentX :: real
  currentY :: real
  rowHeight :: real
  remainingWidth :: real

text \<open>
  \<open>layoutTreemap\<close>, on exact reals. For a positive height every area is positive and
  every divisor \<open>itemWidth\<close> is positive; for other heights JavaScript computes with
  \<open>NaN\<close>, which the model does not represent.
\<close>

definition layout_step ::
  "real \<Rightarrow> real \<Rightarrow> real \<Rightarrow> layout_state \<times> TreemapItem list \<Rightarrow> TreemapItem
     \<Rightarrow> layout_state \<times> TreemapItem list" where
  "layout_step tot w h acc item =
     (let st = fst acc;
          ratio = real (item_value item) / tot;
          area = ratio * w * h;
          st1 = (if currentX st + sqrt area > w
                 then \<lparr>currentX = 0, currentY = currentY st + rowHeight st, rowHeight = 0,
                       remainingWidth = w\<rparr>
                 else st);
          itemWidth = min (sqrt (area * 2)) (remainingWidth st1);
          itemHeight = area / itemWidth
      in (\<lparr>currentX = currentX st1 + itemWidth, currentY = currentY st1,
           rowHeight = max (rowHeight st1) itemHeight,
           remainingWidth = remainingWidth st1 - itemWidth\<rparr>,
          snd acc @ [item\<lparr>item_x := currentX st1, item_y := currentY st1,
                          item_width := itemWidth, item_height := itemHeight\<rparr>]))"

definition layoutTreemap :: "TreemapItem list \<Rightarrow> real \<Rightarrow> real \<Rightarrow> TreemapItem list" where
  "layoutTreemap items w h =
     (let tot = real (sum_list (map item_value items))
      in snd (foldl (layout_step tot w h)
                (\<lparr>currentX = 0, currentY = 0, rowHeight = 0, remainingWidth = w\<rparr>, []) items))"

text \<open>\<open>treemapData\<close> of \<open>TreemapChart\<close>; \<open>height\<close> is the component's property.\<close>

definition TreemapChart :: "group_by \<Rightarrow> real \<Rightarrow> LogEntry list \<Rightarrow> TreemapItem list" where
  "TreemapChart groupBy height logs =
     (if length logs = 0 then []
      else
        let items =
              map (\<lambda>(name, v). \<lparr>item_name = name, item_value = v,
                                 item_color = getLogLevelColor (Some name),
                                 item_x = 0, item_y = 0, item_width = 0, item_height = 0\<rparr>)
                (take 12 (sort_entries_desc (countOccurrences groupBy logs)))
        in layoutTreemap items 400 height)"

section \<open>Transport adapter (api.ts)\<close>



text \<open>\<open>s.split(sep)\<close> for a separator of one code unit.\<close>

fun split_on :: "char \<Rightarrow> string \<Rightarrow> string list" where
  "split_on sep [] = [[]]"
| "split_on sep (c # cs) =
     (if c = sep then [] # split_on sep cs
      else case split_on sep cs of
             [] \<Rightarrow> [[c]]
           | l # ls \<Rightarrow> (c # l) # ls)"








section \<open>Verified properties\<close>

subsection \<open>Query model\<close>

lemma trim_empty_iff: "trim s = [] \<longleftrightarrow> (\<forall>c \<in> set s. is_js_whitespace c)"
proof
  assume "trim s = []"
  then have "dropWhile is_js_whitespace (rev (dropWhile is_js_whitespace s)) = []"
    by (simp add: trim_def)
  then have "\<forall>c \<in> set (dropWhile is_js_whitespace s). is_js_whitespace c"
    by simp
  moreover have "\<forall>c \<in> set (takeWhile is_js_whitespace s). is_js_whitespace c"
    by (auto dest: set_takeWhileD)
  moreover have "set s = set (takeWhile is_js_whitespace s) \<union> set (dropWhile is_js_whitespace s)"
    by (metis set_append takeWhile_dropWhile_id)
  ultimately show "\<forall>c \<in> set s. is_js_whitespace c" by blast
next
  assume "\<forall>c \<in> set s. is_js_whitespace c"
  then show "trim s = []" by (auto simp: trim_def dest: set_dropWhileD)
qed

lemma match_count_count_list: "match_count c s = count_list s c"
  by (induction s) (auto simp: match_count_def)

lemma join_foldl: "join sep (x # xs) = foldl (\<lambda>acc y. acc @ sep @ y) x xs"
proof (induction xs arbitrary: x)
  case Nil
  show ?case by simp
next
  case (Cons y ys)
  have "join sep (x # y # ys) = x @ sep @ join sep (y # ys)" by simp
  also have "\<dots> = x @ sep @ foldl (\<lambda>acc z. acc @ sep @ z) y ys" by (simp only: Cons.IH)
  also have "\<dots> = foldl (\<lambda>acc z. acc @ sep @ z) (x @ sep @ y) ys"
  proof (induction ys arbitrary: y)
    case Nil
    show ?case by simp
  next
    case (Cons a as)
    show ?case using Cons.IH [of "y @ sep @ a"] by simp
  qed
  finally show ?case by simp
qed

text \<open>
  Claim C5. The operator table has six entries with six distinct labels, but its tokens are
  not distinct: the entries labelled "not contains" and "regex not match" both carry the
  token \<open>!~\<close>, so the table holds only five different tokens.
\<close>

theorem OPERATORS_tokens_not_distinct:
  "length OPERATORS = 6 \<and> distinct (map op_label OPERATORS)
   \<and> \<not> distinct (map op_value OPERATORS)
   \<and> OPERATORS ! 3 = \<lparr>op_value = ''!~'', op_label = ''not contains''\<rparr>
   \<and> OPERATORS ! 5 = \<lparr>op_value = ''!~'', op_label = ''regex not match''\<rparr>
   \<and> length (remdups (map op_value OPERATORS)) = 5"
  by (simp add: OPERATORS_def)

text \<open>
  Claim C4, as stated, fails on a value that contains white space other than the space
  character: a value with a TAB is rendered without quotes.
\<close>

theorem buildQueryFromFilters_tab_counterexample:
  "is_js_whitespace (CHR 0x09)
   \<and> CHR 0x09 \<in> set [CHR ''a'', CHR 0x09, CHR ''b'']
   \<and> buildQueryFromFilters
        [\<lparr>filter_id = ''1'', field = ''service'', operator = ''='',
          filter_value = [CHR ''a'', CHR 0x09, CHR ''b'']\<rparr>]
       = ''service=a'' @ [CHR 0x09] @ ''b''"
  by (simp add: is_js_whitespace_def buildQueryFromFilters_def filterString_def str_includes_def
      dquote_def)

text \<open>
  Claim C4, amended. \<open>buildQueryFromFilters\<close> drops every clause whose field or value is
  empty; if none remains the result is the wildcard \<open>*\<close>; otherwise the remaining clauses
  are rendered as field, operator, value, the value wrapped in double quotes exactly when
  it contains a space character (U+0020) or a colon, and the renderings are concatenated
  left to right in input order with \<open>'' AND ''\<close> between neighbours.
\<close>

theorem buildQueryFromFilters_spec:
  "buildQueryFromFilters fs =
     (let valid = (\<lambda>f. field f \<noteq> [] \<and> filter_value f \<noteq> []);
          render = (\<lambda>f. field f @ operator f @
            (if CHR '' '' \<in> set (filter_value f) \<or> CHR '':'' \<in> set (filter_value f)
             then [CHR 0x22] @ filter_value f @ [CHR 0x22] else filter_value f))
      in case filter valid fs of
           [] \<Rightarrow> ''*''
         | g # gs \<Rightarrow> foldl (\<lambda>acc f. acc @ '' AND '' @ render f) (render g) gs)"
proof -
  define valid where "valid = (\<lambda>f::Filter. field f \<noteq> [] \<and> filter_value f \<noteq> [])"
  define render where "render = (\<lambda>f::Filter. field f @ operator f @
            (if CHR '' '' \<in> set (filter_value f) \<or> CHR '':'' \<in> set (filter_value f)
             then [CHR 0x22] @ filter_value f @ [CHR 0x22] else filter_value f))"
  have r: "filterString f = render f" for f
    by (simp add: filterString_def render_def str_includes_def dquote_def Let_def)
  have fl: "foldl (\<lambda>acc y. acc @ '' AND '' @ y) a (map render gs)
            = foldl (\<lambda>acc f. acc @ '' AND '' @ render f) a gs" for a gs
    by (induction gs arbitrary: a) simp_all
  have "buildQueryFromFilters fs =
      (case filter valid fs of [] \<Rightarrow> ''*''
       | g # gs \<Rightarrow> foldl (\<lambda>acc f. acc @ '' AND '' @ render f) (render g) gs)"
  proof (cases "filter valid fs")
    case Nil
    then show ?thesis by (simp add: buildQueryFromFilters_def valid_def)
  next
    case (Cons g gs)
    then have "buildQueryFromFilters fs = join '' AND '' (map filterString (g # gs))"
      by (simp add: buildQueryFromFilters_def valid_def)
    also have "\<dots> = join '' AND '' (render g # map render gs)"
    proof -
      have "filterString = render" by (rule ext) (rule r)
      then show ?thesis by simp
    qed
    also have "\<dots> = foldl (\<lambda>acc f. acc @ '' AND '' @ render f) (render g) gs"
      by (simp only: join_foldl fl)
    finally show ?thesis using Cons by simp
  qed
  then show ?thesis unfolding valid_def render_def Let_def .
qed

theorem buildQueryFromFilters_spec_witness:
  "buildQueryFromFilters
     [\<lparr>filter_id = ''1'', field = ''service'', operator = ''='', filter_value = ''api gateway''\<rparr>,
      \<lparr>filter_id = ''2'', field = ''host'', operator = ''='', filter_value = ''''\<rparr>,
      \<lparr>filter_id = ''3'', field = ''level'', operator = ''!='', filter_value = ''INFO''\<rparr>]
   = ''service='' @ [CHR 0x22] @ ''api gateway'' @ [CHR 0x22] @ '' AND level!=INFO''"
  using buildQueryFromFilters_spec
     [of "[\<lparr>filter_id = ''1'', field = ''service'', operator = ''='', filter_value = ''api gateway''\<rparr>,
      \<lparr>filter_id = ''2'', field = ''host'', operator = ''='', filter_value = ''''\<rparr>,
      \<lparr>filter_id = ''3'', field = ''level'', operator = ''!='', filter_value = ''INFO''\<rparr>]"]
  by simp

text \<open>
  Claim C8. \<open>validateLogsQLQuery\<close> reports, in this order of precedence: "Query cannot be
  empty" when every character of the input is white space (in particular for the empty
  input); "Mismatched parentheses" when the numbers of opening and closing parentheses
  differ; "Mismatched quotes" when the number of double quotes is odd; and valid otherwise.
  The four examples of the specification evaluate accordingly.
\<close>

theorem validateLogsQLQuery_spec:
  "validateLogsQLQuery q =
     (if (\<forall>c \<in> set q. is_js_whitespace c)
        then \<lparr>isValid = False, error = Some ''Query cannot be empty''\<rparr>
      else if count_list q CHR ''('' \<noteq> count_list q CHR '')''
        then \<lparr>isValid = False, error = Some ''Mismatched parentheses''\<rparr>
      else if odd (count_list q (CHR 0x22))
        then \<lparr>isValid = False, error = Some ''Mismatched quotes''\<rparr>
      else \<lparr>isValid = True, error = None\<rparr>)
   \<and> validateLogsQLQuery ''(a=1)'' = \<lparr>isValid = True, error = None\<rparr>
   \<and> validateLogsQLQuery ''(a=1'' = \<lparr>isValid = False, error = Some ''Mismatched parentheses''\<rparr>
   \<and> validateLogsQLQuery (''a='' @ [CHR 0x22] @ ''b'')
       = \<lparr>isValid = False, error = Some ''Mismatched quotes''\<rparr>
   \<and> validateLogsQLQuery '''' = \<lparr>isValid = False, error = Some ''Query cannot be empty''\<rparr>"
proof -
  have g: "validateLogsQLQuery q =
     (if (\<forall>c \<in> set q. is_js_whitespace c)
        then \<lparr>isValid = False, error = Some ''Query cannot be empty''\<rparr>
      else if count_list q CHR ''('' \<noteq> count_list q CHR '')''
        then \<lparr>isValid = False, error = Some ''Mismatched parentheses''\<rparr>
      else if odd (count_list q (CHR 0x22))
        then \<lparr>isValid = False, error = Some ''Mismatched quotes''\<rparr>
      else \<lparr>isValid = True, error = None\<rparr>)" for q
    by (simp add: validateLogsQLQuery_def trim_empty_iff match_count_count_list dquote_def
        Let_def odd_iff_mod_2_eq_one)
  have ws: "\<not> is_js_whitespace CHR ''a''" "\<not> is_js_whitespace CHR ''(''"
    by (simp_all add: is_js_whitespace_def)
  show ?thesis
    apply (intro conjI)
        apply (rule g)
       apply (simp add: g ws)
      apply (simp add: g ws)
     apply (simp add: g ws)
    apply (simp add: g)
    done
qed

theorem validateLogsQLQuery_spec_witness:
  "\<not> (\<forall>c \<in> set (''(x='' @ [CHR 0x22] @ ''y'' @ [CHR 0x22] @ '')''). is_js_whitespace c)
   \<and> validateLogsQLQuery (''(x='' @ [CHR 0x22] @ ''y'' @ [CHR 0x22] @ '')'')
      = \<lparr>isValid = True, error = None\<rparr>"
  using validateLogsQLQuery_spec [of "''(x='' @ [CHR 0x22] @ ''y'' @ [CHR 0x22] @ '')''"]
  by (simp add: is_js_whitespace_def)

subsection \<open>Drift classification\<close>




subsection \<open>Frequency counts\<close>

text \<open>
  The counts kept in a \<open>Map\<close> (pie, donut, treemap) add up to the number of records,
  for every grouping field: each record increments exactly one entry.
\<close>

lemma sum_map_set:
  "sum_list (map snd (map_set m k v)) + (case map_of m k of None \<Rightarrow> 0 | Some n \<Rightarrow> n)
     = sum_list (map snd m) + (v::nat)"
  by (induction m) auto

lemma sum_map_increment: "sum_list (map snd (map_increment m k)) = sum_list (map snd m) + 1"
  using sum_map_set [of m k "(case map_of m k of None \<Rightarrow> 0 | Some n \<Rightarrow> n) + 1"]
  by (simp add: map_increment_def)

lemma sum_foldl_increment:
  "sum_list (map snd (foldl (\<lambda>counts entry. map_increment counts (key entry)) acc logs))
     = sum_list (map snd acc) + length logs"
  by (induction logs arbitrary: acc) (simp_all add: sum_map_increment)

lemma countOccurrences_total:
  "sum_list (map snd (countOccurrences groupBy logs)) = length logs"
  by (simp add: countOccurrences_def sum_foldl_increment)

text \<open>
  The counts kept in a plain object agree with the \<open>Map\<close>-based counts, and so add up to
  the number of records, as long as no group name is the name of a member of
  \<open>Object.prototype\<close>.
\<close>

lemma map_of_apsnd_Count: "map_of (map (apsnd Count) m) k = map_option Count (map_of m k)"
  by (induction m) auto

lemma map_set_apsnd: "map_set (map (apsnd f) m) k (f v) = map (apsnd f) (map_set m k v)"
  by (induction m) auto

lemma object_increment_refines:
  assumes "\<not> List.member Object_prototype_names k"
  shows "object_increment (map (apsnd Count) m) k = map (apsnd Count) (map_increment m k)"
proof -
  have k: "k \<noteq> ''__proto__''"
    using assms by (auto simp: Object_prototype_names_def)
  show ?thesis
  proof (cases "map_of m k")
    case None
    then show ?thesis
      using assms k map_set_apsnd [of Count m k 1]
      by (simp add: object_increment_def object_get_def object_set_def map_increment_def
          map_of_apsnd_Count)
  next
    case (Some n)
    then show ?thesis
      using k map_set_apsnd [of Count m k "n + 1"]
      by (simp add: object_increment_def object_get_def object_set_def map_increment_def
          map_of_apsnd_Count)
  qed
qed

lemma objectCounts_refines_gen:
  assumes "list_all (\<lambda>entry. \<not> List.member Object_prototype_names (key entry)) logs"
  shows "foldl (\<lambda>acc entry. object_increment acc (key entry)) (map (apsnd Count) m) logs
       = map (apsnd Count) (foldl (\<lambda>counts entry. map_increment counts (key entry)) m logs)"
  using assms
proof (induction logs arbitrary: m)
  case Nil
  show ?case by simp
next
  case (Cons entry logs)
  then have "\<not> List.member Object_prototype_names (key entry)" by simp
  then have "object_increment (map (apsnd Count) m) (key entry)
      = map (apsnd Count) (map_increment m (key entry))"
    by (rule object_increment_refines)
  with Cons show ?case by simp
qed

lemma serviceCounts_total:
  assumes "list_all (\<lambda>entry. \<not> List.member Object_prototype_names
              (or_default (service entry) ''Unknown'')) logs"
  shows "\<exists>m. serviceCounts logs = map (apsnd Count) m \<and> sum_list (map snd m) = length logs"
proof -
  let ?key = "\<lambda>entry. or_default (service entry) ''Unknown''"
  let ?m = "foldl (\<lambda>counts entry. map_increment counts (?key entry)) [] logs"
  have "serviceCounts logs = map (apsnd Count) ?m"
    using objectCounts_refines_gen [OF assms, of "[]"]
    by (simp add: serviceCounts_def objectCounts_def)
  moreover have "sum_list (map snd ?m) = length logs"
    using sum_foldl_increment [of ?key "[]" logs] by simp
  ultimately show ?thesis by blast
qed

text \<open>
  Claim C10. The per-group counts are meant to add up to the number of records. The
  object-based count of \<open>ServiceChart\<close> breaks this for a service whose name is inherited
  from \<open>Object.prototype\<close>: for the single record of service \<open>constructor\<close> the count is a
  string instead of the number 1, and the single record of service \<open>__proto__\<close> is dropped
  altogether; the \<open>Map\<close>-based count of the pie chart counts both records once.
\<close>

theorem serviceCounts_inherited_name:
  "serviceCounts [\<lparr>log_time = 0, log_msg = ''m'', level = None,
                   service = Some ''constructor'', host = None\<rparr>]
     = [(''constructor'', Text)]
   \<and> map row_count (ServiceChart [\<lparr>log_time = 0, log_msg = ''m'', level = None,
                   service = Some ''constructor'', host = None\<rparr>]) = [Text]
   \<and> serviceCounts [\<lparr>log_time = 0, log_msg = ''m'', level = None,
                   service = Some ''__proto__'', host = None\<rparr>] = []
   \<and> ServiceChart [\<lparr>log_time = 0, log_msg = ''m'', level = None,
                   service = Some ''__proto__'', host = None\<rparr>] = []
   \<and> countOccurrences by_service [\<lparr>log_time = 0, log_msg = ''m'', level = None,
                   service = Some ''constructor'', host = None\<rparr>] = [(''constructor'', 1)]
   \<and> countOccurrences by_service [\<lparr>log_time = 0, log_msg = ''m'', level = None,
                   service = Some ''__proto__'', host = None\<rparr>] = [(''__proto__'', 1)]"
  by (simp add: serviceCounts_def objectCounts_def object_increment_def object_get_def
      object_set_def Object_prototype_names_def ServiceChart_def Object_entries_def
      is_array_index_def is_digit_def js_sort_def countOccurrences_def map_increment_def
      or_default_def)

subsection \<open>Gauge metrics\<close>

text \<open>
  What the gauge computes: the share of records whose level is exactly the string
  \<open>ERROR\<close> (respectively \<open>WARN\<close>), in percent; and, for more than one record and a
  non-zero span between the first and the last record, the records per minute over that
  span, scaled against 10 per minute and clamped to 100.
\<close>

lemma percent_le_100:
  assumes "m \<le> n" and "0 < n"
  shows "real m / real n * 100 \<le> 100"
proof -
  have "real m * 100 \<le> 100 * real n" using assms by simp
  then show ?thesis using assms by (simp add: field_simps)
qed

lemma GaugeChart_error_rate_value:
  assumes "logs \<noteq> []"
  shows "gauge_value (GaugeChart error_rate logs)
       = real (length (filter (\<lambda>entry. level entry = Some ''ERROR'') logs)) / real (length logs) * 100"
proof -
  let ?n = "length (filter (\<lambda>entry. level entry = Some ''ERROR'') logs)"
  have "?n \<le> length logs" by simp
  moreover have "0 < length logs" using assms by simp
  ultimately have "real ?n / real (length logs) * 100 \<le> 100" by (rule percent_le_100)
  then show ?thesis using assms by (simp add: GaugeChart_def Let_def min_def)
qed

lemma GaugeChart_warning_rate_value:
  assumes "logs \<noteq> []"
  shows "gauge_value (GaugeChart warning_rate logs)
       = real (length (filter (\<lambda>entry. level entry = Some ''WARN'') logs)) / real (length logs) * 100"
proof -
  let ?n = "length (filter (\<lambda>entry. level entry = Some ''WARN'') logs)"
  have "?n \<le> length logs" by simp
  moreover have "0 < length logs" using assms by simp
  ultimately have "real ?n / real (length logs) * 100 \<le> 100" by (rule percent_le_100)
  then show ?thesis using assms by (simp add: GaugeChart_def Let_def min_def)
qed

lemma GaugeChart_activity_value:
  assumes "length logs > 1" and "log_time (last logs) \<noteq> log_time (hd logs)"
  shows "gauge_value (GaugeChart activity_level logs)
       = min (real (length logs)
               / (real_of_int (log_time (last logs) - log_time (hd logs)) / 60000) / 10 * 100) 100"
  using assms by (simp add: GaugeChart_def Let_def)

text \<open>
  Claim C7. The gauge's error rate is meant to count the records of the case-insensitive
  error tier (\<open>ERROR\<close>, \<open>FATAL\<close>, \<open>CRITICAL\<close>), as the error analysis of \<open>ErrorChart\<close>
  does. The gauge compares the level with the exact string \<open>ERROR\<close> instead: for a single
  record of level \<open>FATAL\<close>, or of level \<open>error\<close>, the record is an error record of the
  tier and the gauge shows 0 where the error analysis shows 100; likewise a record of level
  \<open>warn\<close> is not counted by the warning rate.
\<close>

theorem GaugeChart_error_rate_ignores_tier:
  "isErrorLog \<lparr>log_time = 0, log_msg = ''m'', level = Some ''FATAL'', service = None, host = None\<rparr>
   \<and> gauge_value (GaugeChart error_rate
        [\<lparr>log_time = 0, log_msg = ''m'', level = Some ''FATAL'', service = None, host = None\<rparr>]) = 0
   \<and> isErrorLog \<lparr>log_time = 0, log_msg = ''m'', level = Some ''error'', service = None, host = None\<rparr>
   \<and> gauge_value (GaugeChart error_rate
        [\<lparr>log_time = 0, log_msg = ''m'', level = Some ''error'', service = None, host = None\<rparr>]) = 0
   \<and> errorRate (ErrorChart (\<lambda>t. []) 0
        [\<lparr>log_time = 0, log_msg = ''m'', level = Some ''FATAL'', service = None, host = None\<rparr>]) = 100
   \<and> toUpperCase ''warn'' = ''WARN''
   \<and> gauge_value (GaugeChart warning_rate
        [\<lparr>log_time = 0, log_msg = ''m'', level = Some ''warn'', service = None, host = None\<rparr>]) = 0"
  by (simp add: isErrorLog_def toUpperCase_def upper_char_def GaugeChart_def ErrorChart_def
      toFixed1_def Let_def)

subsection \<open>Error analysis\<close>












lemma rev_upto_0_23:
  "rev [0 .. 23 :: int] =
     [23, 22, 21, 20, 19, 18, 17, 16, 15, 14, 13, 12, 11, 10, 9, 8, 7, 6, 5, 4, 3, 2, 1, 0]"
  by code_simp






text \<open>
  Outside that window the trend is taken from the last buckets in insertion order: an
  error record that is 100 hours old is appended behind the 24 initial buckets and counts
  as the most recent hour.
\<close>

lemma ErrorChart_old_error_counts_as_recent:
  "trend (ErrorChart (\<lambda>t. []) 360000000
     [\<lparr>log_time = 0, log_msg = ''a'', level = Some ''ERROR'', service = None, host = None\<rparr>])
     = ''up''
   \<and> hourlyData (ErrorChart (\<lambda>t. []) 360000000
     [\<lparr>log_time = 0, log_msg = ''a'', level = Some ''ERROR'', service = None, host = None\<rparr>])
     = Some [0, 0, 0, 0, 0, 0, 0, 0, 0, 0, 0, 0, 0, 0, 0, 0, 0, 0, 0, 0, 0, 0, 0, 0, 1]"
  by (simp add: ErrorChart_def isErrorLog_def toUpperCase_def upper_char_def hourlyErrors_def
      rev_upto_0_23 oneHour_def map_increment_def js_slice_from_def js_slice_def Let_def)

subsection \<open>Time buckets\<close>

text \<open>
  The 1-minute buckets of the timeline chart. Its \<open>Map\<close> has distinct keys; they are
  exactly the aligned bucket starts (multiples of 60000) from the bucket of the earliest
  record to the bucket of the latest one, without gaps; and each bucket holds the number of
  records that fall into it, a bucket without records holding 0.
\<close>

lemma map_set_keys: "fst ` set (map_set m k v) = insert k (fst ` set m)"
proof (induction m)
  case Nil
  show ?case by simp
next
  case (Cons p m)
  obtain k' v' where p: "p = (k', v')" by (cases p)
  show ?case
  proof (cases "k' = k")
    case True
    then show ?thesis by (simp add: p)
  next
    case False
    then show ?thesis using Cons.IH by (simp add: p insert_commute)
  qed
qed

lemma map_set_distinct: "distinct (map fst m) \<Longrightarrow> distinct (map fst (map_set m k v))"
proof (induction m)
  case Nil
  show ?case by simp
next
  case (Cons p m)
  obtain k' v' where p: "p = (k', v')" by (cases p)
  show ?case
  proof (cases "k' = k")
    case True
    then show ?thesis using Cons.prems by (simp add: p)
  next
    case False
    have "k' \<notin> fst ` set (map_set m k v)"
      using Cons.prems False by (simp add: p map_set_keys)
    then show ?thesis using Cons False by (simp add: p)
  qed
qed

lemma map_of_map_set: "map_of (map_set m k v) = (map_of m)(k \<mapsto> v)"
  by (induction m) auto

lemma map_of_map_increment:
  "map_of (map_increment m k) = (map_of m)(k \<mapsto> (case map_of m k of None \<Rightarrow> 0 | Some n \<Rightarrow> n) + 1)"
  by (simp add: map_increment_def map_of_map_set)

lemma timeline_init_keys:
  "fst ` set (timeline_init t mx b)
     = fst ` set b \<union> {k. \<exists>j\<ge>0. k = t div 60000 * 60000 + j * 60000 \<and> t + j * 60000 \<le> mx}"
proof (induction t mx b rule: timeline_init.induct)
  case (1 t mx b)
  show ?case
  proof (cases "t \<le> mx")
    case False
    then have "\<And>j. 0 \<le> j \<Longrightarrow> \<not> t + j * 60000 \<le> mx"
    proof -
      fix j :: int
      assume "0 \<le> j"
      then have "t \<le> t + j * 60000" by simp
      with False show "\<not> t + j * 60000 \<le> mx" by linarith
    qed
    with False show ?thesis by (auto simp: timeline_init.simps [of t])
  next
    case True
    have shift: "(t + 60000) div 60000 * 60000 = t div 60000 * 60000 + 60000" by simp
    have "{k. \<exists>j\<ge>0. k = t div 60000 * 60000 + j * 60000 \<and> t + j * 60000 \<le> mx}
        = insert (t div 60000 * 60000)
            {k. \<exists>j\<ge>0. k = (t + 60000) div 60000 * 60000 + j * 60000 \<and> t + 60000 + j * 60000 \<le> mx}"
      (is "?L = insert ?k0 ?R")
    proof (rule set_eqI)
      fix k
      show "k \<in> ?L \<longleftrightarrow> k \<in> insert ?k0 ?R"
      proof
        assume "k \<in> ?L"
        then obtain j where j: "0 \<le> j" "k = ?k0 + j * 60000" "t + j * 60000 \<le> mx" by auto
        show "k \<in> insert ?k0 ?R"
        proof (cases "j = 0")
          case True
          with j show ?thesis by simp
        next
          case False
          with j have "0 \<le> j - 1" "k = (t + 60000) div 60000 * 60000 + (j - 1) * 60000"
            "t + 60000 + (j - 1) * 60000 \<le> mx"
            by (simp_all add: shift algebra_simps)
          then have "k \<in> ?R" by blast
          then show ?thesis by simp
        qed
      next
        assume "k \<in> insert ?k0 ?R"
        then consider "k = ?k0" | "k \<in> ?R" by auto
        then show "k \<in> ?L"
        proof cases
          case 1
          with True have "0 \<le> (0::int)" "k = ?k0 + 0 * 60000" "t + 0 * 60000 \<le> mx" by simp_all
          then show ?thesis by blast
        next
          case 2
          then obtain j where j: "0 \<le> j" "k = (t + 60000) div 60000 * 60000 + j * 60000"
            "t + 60000 + j * 60000 \<le> mx" by auto
          then have "0 \<le> j + 1" "k = ?k0 + (j + 1) * 60000" "t + (j + 1) * 60000 \<le> mx"
            by (simp_all add: shift algebra_simps)
          then show ?thesis by blast
        qed
      qed
    qed
    then show ?thesis
      using True "1.IH" [OF True] by (simp add: timeline_init.simps [of t] map_set_keys)
  qed
qed

lemma timeline_init_distinct:
  "distinct (map fst b) \<Longrightarrow> distinct (map fst (timeline_init t mx b))"
proof (induction t mx b rule: timeline_init.induct)
  case (1 t mx b)
  show ?case
  proof (cases "t \<le> mx")
    case False
    with "1.prems" show ?thesis by (simp add: timeline_init.simps [of t])
  next
    case True
    from "1.prems" have "distinct (map fst (map_set b (t div (60 * 1000) * (60 * 1000)) 0))"
      by (rule map_set_distinct)
    from "1.IH" [OF True this] True show ?thesis by (simp add: timeline_init.simps [of t])
  qed
qed

lemma timeline_init_zero:
  "\<forall>k v. map_of b k = Some v \<longrightarrow> v = 0 \<Longrightarrow> map_of (timeline_init t mx b) k = Some v \<Longrightarrow> v = 0"
proof (induction t mx b arbitrary: k v rule: timeline_init.induct)
  case (1 t mx b)
  show ?case
  proof (cases "t \<le> mx")
    case False
    with "1.prems" show ?thesis by (simp add: timeline_init.simps [of t])
  next
    case True
    have "\<forall>k v. map_of (map_set b (t div (60 * 1000) * (60 * 1000)) 0) k = Some v \<longrightarrow> v = 0"
      using "1.prems"(1) by (auto simp: map_of_map_set)
    from "1.IH" [OF True this] "1.prems"(2) True show ?thesis
      by (simp add: timeline_init.simps [of t])
  qed
qed

lemma bucket_start_le: "0 < w \<Longrightarrow> t div w * w \<le> (t::int)"
proof -
  assume w: "0 < w"
  have "t = t div w * w + t mod w" by simp
  moreover have "0 \<le> t mod w" using w by simp
  ultimately show ?thesis by linarith
qed

lemma bucket_start_gt: "0 < w \<Longrightarrow> (t::int) < t div w * w + w"
proof -
  assume w: "0 < w"
  have "t = t div w * w + t mod w" by simp
  moreover have "t mod w < w" using w by simp
  ultimately show ?thesis by linarith
qed

lemma bucket_start_mono: "0 < w \<Longrightarrow> s \<le> t \<Longrightarrow> s div w * w \<le> t div w * (w::int)"
  by (simp add: zdiv_mono1 mult_right_mono)

lemma bucket_start_shift: "0 < w \<Longrightarrow> (t + j * w) div w * w = t div w * w + j * (w::int)"
  by (simp add: algebra_simps)

lemma aligned_bucket_start: "(k::int) mod w = 0 \<Longrightarrow> k div w * w = k"
  by auto

lemma bucket_start_aligned: "(t div w * w) mod w = (0::int)"
  by simp

lemma map_increment_keys: "fst ` set (map_increment m k) = insert k (fst ` set m)"
  by (simp add: map_increment_def map_set_keys)

lemma map_increment_distinct: "distinct (map fst m) \<Longrightarrow> distinct (map fst (map_increment m k))"
  by (simp add: map_increment_def map_set_distinct)

lemma fill_keys:
  "fst ` set (foldl (\<lambda>buckets entry. map_increment buckets (key entry)) m logs)
     = fst ` set m \<union> key ` set logs"
  by (induction logs arbitrary: m) (auto simp: map_increment_keys)

lemma fill_distinct:
  "distinct (map fst m) \<Longrightarrow>
   distinct (map fst (foldl (\<lambda>buckets entry. map_increment buckets (key entry)) m logs))"
  by (induction logs arbitrary: m) (simp_all add: map_increment_distinct)

lemma fill_counts:
  "(case map_of (foldl (\<lambda>buckets entry. map_increment buckets (key entry)) m logs) k of
      None \<Rightarrow> 0 | Some n \<Rightarrow> n)
     = (case map_of m k of None \<Rightarrow> 0 | Some n \<Rightarrow> n) + length (filter (\<lambda>entry. key entry = k) logs)"
  by (induction logs arbitrary: m) (auto simp: map_of_map_increment)

lemma Math_min_Min: "xs \<noteq> [] \<Longrightarrow> Math_min xs = Min (set xs)"
proof (cases xs)
  case Nil
  then show "xs \<noteq> [] \<Longrightarrow> Math_min xs = Min (set xs)" by simp
next
  case (Cons a list)
  show "Math_min xs = Min (set xs)"
    unfolding Cons Math_min_def by (simp only: Min.set_eq_fold list.sel)
qed

lemma Math_max_Max: "xs \<noteq> [] \<Longrightarrow> Math_max xs = Max (set xs)"
proof (cases xs)
  case Nil
  then show "xs \<noteq> [] \<Longrightarrow> Math_max xs = Max (set xs)" by simp
next
  case (Cons a list)
  show "Math_max xs = Max (set xs)"
    unfolding Cons Math_max_def by (simp only: Max.set_eq_fold list.sel)
qed

lemma timeline_buckets_unfold:
  "timeline_buckets logs =
     foldl (\<lambda>buckets entry. map_increment buckets (log_time entry div 60000 * 60000))
       (timeline_init (Math_min (map log_time logs)) (Math_max (map log_time logs)) []) logs"
  by (simp add: timeline_buckets_def Let_def)

lemma timeline_buckets_keys:
  assumes "logs \<noteq> []"
  shows "fst ` set (timeline_buckets logs)
       = {k. k mod 60000 = 0
             \<and> Min (log_time ` set logs) div 60000 * 60000 \<le> k
             \<and> k \<le> Max (log_time ` set logs) div 60000 * 60000}"
proof -
  let ?mn = "Min (log_time ` set logs)"
  let ?mx = "Max (log_time ` set logs)"
  let ?fl = "\<lambda>t::int. t div 60000 * 60000"
  have fin: "finite (log_time ` set logs)" and ne: "log_time ` set logs \<noteq> {}"
    using assms by simp_all
  have mn_in: "?mn \<in> log_time ` set logs" using fin ne by (rule Min_in)
  have mx_in: "?mx \<in> log_time ` set logs" using fin ne by (rule Max_in)
  have mn_le: "?mn \<le> t" if "t \<in> log_time ` set logs" for t using fin that by (rule Min_le)
  have le_mx: "t \<le> ?mx" if "t \<in> log_time ` set logs" for t using fin that by (rule Max_ge)
  have w: "(0::int) < 60000" by simp
  have keys: "fst ` set (timeline_buckets logs)
      = {k. \<exists>j\<ge>0. k = ?fl ?mn + j * 60000 \<and> ?mn + j * 60000 \<le> ?mx}
        \<union> (\<lambda>entry. ?fl (log_time entry)) ` set logs"
    using assms
    by (simp add: timeline_buckets_unfold fill_keys timeline_init_keys Math_min_Min Math_max_Max)
  show ?thesis
  proof (rule set_eqI)
    fix k
    show "k \<in> fst ` set (timeline_buckets logs)
        \<longleftrightarrow> k \<in> {k. k mod 60000 = 0 \<and> ?fl ?mn \<le> k \<and> k \<le> ?fl ?mx}"
    proof
      assume "k \<in> fst ` set (timeline_buckets logs)"
      then consider (init) j where "0 \<le> j" "k = ?fl ?mn + j * 60000" "?mn + j * 60000 \<le> ?mx"
        | (fill) entry where "entry \<in> set logs" "k = ?fl (log_time entry)"
        unfolding keys by auto
      then show "k \<in> {k. k mod 60000 = 0 \<and> ?fl ?mn \<le> k \<and> k \<le> ?fl ?mx}"
      proof cases
        case init
        have "k = ?fl (?mn + j * 60000)" using init(2) by (simp add: bucket_start_shift [OF w])
        moreover have "?fl (?mn + j * 60000) \<le> ?fl ?mx"
          using w init(3) by (rule bucket_start_mono)
        moreover have "?fl ?mn \<le> k" using init(1,2) by simp
        moreover have "k mod 60000 = 0" using init(2) by simp
        ultimately show ?thesis by simp
      next
        case fill
        have t: "log_time entry \<in> log_time ` set logs" using fill(1) by simp
        have "?fl ?mn \<le> k" unfolding fill(2) using w mn_le [OF t] by (rule bucket_start_mono)
        moreover have "k \<le> ?fl ?mx" unfolding fill(2) using w le_mx [OF t] by (rule bucket_start_mono)
        moreover have "k mod 60000 = 0" unfolding fill(2) by simp
        ultimately show ?thesis by simp
      qed
    next
      assume "k \<in> {k. k mod 60000 = 0 \<and> ?fl ?mn \<le> k \<and> k \<le> ?fl ?mx}"
      then have al: "k mod 60000 = 0" and lo: "?fl ?mn \<le> k" and hi: "k \<le> ?fl ?mx" by simp_all
      define j where "j = (k - ?fl ?mn) div 60000"
      have "(k - ?fl ?mn) mod 60000 = 0" using al by (simp add: mod_diff_left_eq [symmetric])
      then have kj: "k = ?fl ?mn + j * 60000" unfolding j_def by (simp add: aligned_bucket_start)
      have j0: "0 \<le> j" unfolding j_def using lo by (simp add: pos_imp_zdiv_nonneg_iff)
      show "k \<in> fst ` set (timeline_buckets logs)"
      proof (cases "?mn + j * 60000 \<le> ?mx")
        case True
        with kj j0 show ?thesis unfolding keys by blast
      next
        case False
        have "?mn < ?fl ?mn + 60000" using w by (rule bucket_start_gt)
        with False kj have "?mx < k + 60000" by linarith
        moreover have "?fl ?mx \<le> ?mx" using w by (rule bucket_start_le)
        ultimately have "?fl ?mx < k + 60000" by linarith
        moreover have "(?fl ?mx - k) mod 60000 = 0"
          using al by (simp add: mod_diff_right_eq [symmetric])
        ultimately have "?fl ?mx = k"
        proof -
          assume a: "?fl ?mx < k + 60000" and b: "(?fl ?mx - k) mod 60000 = 0"
          from hi a have "0 \<le> ?fl ?mx - k" and "?fl ?mx - k < 60000" by linarith+
          then have "(?fl ?mx - k) mod 60000 = ?fl ?mx - k" by (rule mod_pos_pos_trivial)
          with b show ?thesis by linarith
        qed
        moreover obtain entry where "entry \<in> set logs" "log_time entry = ?mx"
          using mx_in by auto
        ultimately have "k \<in> (\<lambda>entry. ?fl (log_time entry)) ` set logs" by force
        then show ?thesis unfolding keys by blast
      qed
    qed
  qed
qed

lemma timeline_buckets_distinct: "distinct (map fst (timeline_buckets logs))"
  by (simp add: timeline_buckets_unfold fill_distinct timeline_init_distinct)

lemma timeline_buckets_counts:
  "(case map_of (timeline_buckets logs) k of None \<Rightarrow> 0 | Some n \<Rightarrow> n)
     = length (filter (\<lambda>entry. log_time entry div 60000 * 60000 = k) logs)"
proof -
  have "map_of (timeline_init (Math_min (map log_time logs)) (Math_max (map log_time logs)) []) k
          = Some v \<Longrightarrow> v = 0" for v
    by (rule timeline_init_zero [of "[]"]) simp_all
  then have "(case map_of (timeline_init (Math_min (map log_time logs))
                 (Math_max (map log_time logs)) []) k of None \<Rightarrow> 0 | Some n \<Rightarrow> n) = 0"
    by (simp split: option.splits)
  then show ?thesis
    by (simp add: timeline_buckets_unfold fill_counts)
qed

text \<open>
  Two evaluations. For two records at 00:00:01 and 00:20:01 (UTC, 12 August 2025) the
  stacked chart initialises the buckets 00:00:01, 00:10:01 and 00:20:01 and then fills
  the aligned buckets 00:00:00 and 00:20:00. For two records one minute apart around
  \<open>10^12\<close> milliseconds (9 September 2001) the two bucket keys have 12 and 13 digits.
\<close>

lemma stacked_buckets_example:
  "stacked_buckets by_level
     [\<lparr>log_time = 1754956801000, log_msg = ''a'', level = Some ''ERROR'', service = None, host = None\<rparr>,
      \<lparr>log_time = 1754958001000, log_msg = ''b'', level = Some ''ERROR'', service = None, host = None\<rparr>]
   = [(1754956801000, []), (1754957401000, []), (1754958001000, []),
      (1754956800000, [(''ERROR'', 1)]), (1754958000000, [(''ERROR'', 1)])]"
proof -
  have "stacked_init 1754956801000 1754958001000 []
      = [(1754956801000, []), (1754957401000, []), (1754958001000, [])]"
    by (simp add: stacked_init.simps)
  then show ?thesis
    by (simp add: stacked_buckets_def Math_min_def Math_max_def stacked_fill_def Let_def
        map_increment_def or_default_def)
qed

lemma stacked_sort_example:
  "sort_numbers_default [1754956801000, 1754957401000, 1754958001000, 1754956800000, 1754958000000]
     = [1754956800000, 1754956801000, 1754957401000, 1754958000000, 1754958001000]"
  by (simp add: sort_numbers_default_def js_sort_def Number_toString_def digits_of.simps)

lemma timeline_buckets_example:
  "timeline_buckets
     [\<lparr>log_time = 999999960000, log_msg = ''a'', level = None, service = None, host = None\<rparr>,
      \<lparr>log_time = 1000000020000, log_msg = ''b'', level = None, service = None, host = None\<rparr>]
   = [(999999960000, 1), (1000000020000, 1)]"
proof -
  have "timeline_init 999999960000 1000000020000 [] = [(999999960000, 0), (1000000020000, 0)]"
    by (simp add: timeline_init.simps)
  then show ?thesis
    by (simp add: timeline_buckets_def Math_min_def Math_max_def Let_def map_increment_def)
qed

lemma timeline_sort_example:
  "sort_numbers_default [999999960000, 1000000020000] = [1000000020000, 999999960000]"
  by (simp add: sort_numbers_default_def js_sort_def Number_toString_def digits_of.simps)

text \<open>
  Claim C2. The bucket keys are meant to be the aligned bucket starts
  \<open>floor(timestamp / width) * width\<close>, in ascending order and without gaps. The stacked
  chart initialises its buckets at \<open>min + k * width\<close> without aligning them (the timeline
  chart does align them), so for the two records above its keys contain the unaligned
  instants 00:00:01, 00:10:01 and 00:20:01 and lack the aligned bucket 00:10:00 between the
  buckets 00:00:00 and 00:20:00 of the two records. Both charts order the keys with
  \<open>sort()\<close>, which compares the decimal strings, so the timeline's keys for the records
  around \<open>10^12\<close> come out in descending order.
\<close>

theorem time_buckets_unaligned_and_unsorted:
  "StackedAreaChart by_level
     [\<lparr>log_time = 1754956801000, log_msg = ''a'', level = Some ''ERROR'', service = None, host = None\<rparr>,
      \<lparr>log_time = 1754958001000, log_msg = ''b'', level = Some ''ERROR'', service = None, host = None\<rparr>]
     = ([1754956800, 1754956801, 1754957401, 1754958000, 1754958001], [[1, 0, 0, 1, 0]])
   \<and> (1754956801000 :: int) div (10 * 60 * 1000) * (10 * 60 * 1000) = 1754956800000
   \<and> (1754958001000 :: int) div (10 * 60 * 1000) * (10 * 60 * 1000) = 1754958000000
   \<and> TimelineChart
     [\<lparr>log_time = 999999960000, log_msg = ''a'', level = None, service = None, host = None\<rparr>,
      \<lparr>log_time = 1000000020000, log_msg = ''b'', level = None, service = None, host = None\<rparr>]
     = ([1000000020, 999999960], [1, 1])"
  by (simp add: StackedAreaChart_def stacked_buckets_example stacked_sort_example set_add_def
      Let_def TimelineChart_def timeline_buckets_example timeline_sort_example)

subsection \<open>Response normalisation\<close>








lemma split_on_not_Nil: "split_on sep s \<noteq> []"
  by (induction s) (auto split: list.splits)







subsection \<open>Empty input\<close>

text \<open>
  Claim C9. Every aggregation returns its empty result on the empty record sequence,
  through the guard at its head and without computing a quotient: the error analysis a
  rate of 0 with trend "stable" and no recent errors, the gauge the value 0 for each of its
  metrics, the frequency counts (services, hosts, levels), the pie, donut and treemap
  groupings and the radar an empty series, the heat map an empty grid with maximum 0, and
  the time bucketings (timeline, stacked chart, log chart) empty rows.
\<close>

theorem aggregations_on_empty_input:
  "ErrorChart toLocaleTimeString now []
     = \<lparr>errors = [], trend = ''stable'', errorRate = 0, totalErrors = None, hourlyData = None\<rparr>
   \<and> GaugeChart metric []
     = \<lparr>gauge_value = 0, gauge_label = label_zero_percent, gauge_color = ''#10b981''\<rparr>
   \<and> ServiceChart [] = []
   \<and> HostChart now [] = []
   \<and> LogLevelChart [] = ([], [])
   \<and> PieChart groupBy [] = \<lparr>data = [], labels = [], colors = []\<rparr>
   \<and> DonutChart groupBy [] = \<lparr>data = [], labels = [], colors = []\<rparr>
   \<and> TreemapChart groupBy height [] = []
   \<and> RadarChart [] = []
   \<and> HeatmapChart offset [] = \<lparr>grid_data = [], maxValue = 0, dayNames = None\<rparr>
   \<and> TimelineChart [] = ([], [])
   \<and> StackedAreaChart groupBy [] = ([], [[]])
   \<and> LogChart timeRange groupBy showServiceDropdown selectedService [] = ([], [[]])"
  by (simp add: ErrorChart_def GaugeChart_def ServiceChart_def HostChart_def LogLevelChart_def
      PieChart_def DonutChart_def TreemapChart_def RadarChart_def HeatmapChart_def
      TimelineChart_def StackedAreaChart_def LogChart_def)

theorem aggregations_on_empty_input_witness:
  "errorRate (ErrorChart (\<lambda>t. []) 0 []) = 0
   \<and> trend (ErrorChart (\<lambda>t. []) 0 []) = ''stable''
   \<and> gauge_value (GaugeChart error_rate []) = 0
   \<and> gauge_value (GaugeChart warning_rate []) = 0
   \<and> gauge_value (GaugeChart activity_level []) = 0
   \<and> data (PieChart by_level []) = []
   \<and> fst (TimelineChart []) = []"
  using aggregations_on_empty_input [of "\<lambda>t. []" 0 error_rate by_level 300 "\<lambda>t. 0" None False "''all''"]
    aggregations_on_empty_input [of "\<lambda>t. []" 0 warning_rate by_level 300 "\<lambda>t. 0" None False "''all''"]
    aggregations_on_empty_input [of "\<lambda>t. []" 0 activity_level by_level 300 "\<lambda>t. 0" None False "''all''"]
  by simp

end
